theory Spec2Isabelle
  imports Main "HOL-Library.Word" "HOL-Library.Signed_Division"
begin

section \<open>Machine integers and status codes\<close>

text \<open>
  The firmware keeps every timestamp and delay in an \<open>int64_t\<close>. They are modelled as
  64-bit words: addition and subtraction wrap, \<open>sint\<close> reads the two's complement
  value and \<open><s\<close> is the signed comparison of C.
\<close>

type_synonym int64_t = "64 word"

datatype esp_err_t =
    ESP_OK
  | ESP_FAIL
  | ESP_ERR_INVALID_ARG
  | ESP_ERR_INVALID_STATE
  | ESP_ERR_TIMEOUT
  | ESP_ERR_NO_MEM

section \<open>The C library functions the firmware calls\<close>

text \<open>
  Buffers are byte strings. A C string ends at its first NUL byte, and a datagram
  received into a buffer of \<open>rx_len\<close> bytes is cut to \<open>rx_len - 1\<close> bytes before the
  terminating NUL is written.
\<close>

definition c_str :: "string \<Rightarrow> string" where
  "c_str bytes = takeWhile (\<lambda>c. c \<noteq> CHR 0x00) bytes"

definition udp_recv_cstring :: "nat \<Rightarrow> string \<Rightarrow> string" where
  "udp_recv_cstring rx_len datagram = c_str (take (rx_len - 1) datagram)"

definition c_isspace :: "char \<Rightarrow> bool" where
  "c_isspace c = (c \<in> set [CHR '' '', CHR 0x09, CHR 0x0A, CHR 0x0B, CHR 0x0C, CHR 0x0D])"

definition c_isdigit :: "char \<Rightarrow> bool" where
  "c_isdigit c = (c \<in> set ''0123456789'')"

definition digit_value :: "char \<Rightarrow> int" where
  "digit_value c = int (of_char c) - 48"

definition digits_value :: "string \<Rightarrow> int" where
  "digits_value ds = foldl (\<lambda>acc c. acc * 10 + digit_value c) 0 ds"

text \<open>
  The conversion shared by \<open>strtol\<close>, \<open>strtoll\<close>, \<open>atoi\<close>, \<open>atoll\<close> and the
  \<open>%lld\<close> directive of \<open>sscanf\<close> in base 10: leading white space, an optional sign,
  then the longest run of digits. \<open>None\<close> when there is no digit (no conversion);
  otherwise the unbounded value, which each caller below brings into its own range.
\<close>

definition strto_decimal :: "string \<Rightarrow> int option" where
  "strto_decimal s =
     (let s1 = dropWhile c_isspace s;
          neg = (s1 \<noteq> [] \<and> hd s1 = CHR ''-'');
          s2 = (if s1 \<noteq> [] \<and> (hd s1 = CHR ''-'' \<or> hd s1 = CHR ''+'') then tl s1 else s1);
          ds = takeWhile c_isdigit s2
      in if ds = [] then None
         else Some (if neg then - digits_value ds else digits_value ds))"

definition INT_MIN :: int where "INT_MIN = - (2 ^ 31)"
definition INT_MAX :: int where "INT_MAX = 2 ^ 31 - 1"
definition INT64_MIN :: int where "INT64_MIN = - (2 ^ 63)"
definition INT64_MAX :: int where "INT64_MAX = 2 ^ 63 - 1"

text \<open>
  \<open>atoi\<close> is \<open>(int) strtol(s, NULL, 10)\<close>; \<open>long\<close> has 32 bits on the ESP32 and
  \<open>strtol\<close> saturates. Without a digit the result is 0.
\<close>

definition c_atoi :: "string \<Rightarrow> int" where
  "c_atoi s = (case strto_decimal s of None \<Rightarrow> 0 | Some v \<Rightarrow> max INT_MIN (min INT_MAX v))"

text \<open>\<open>sscanf(s, "%lld", &v) == 1\<close> and the value stored, saturated as \<open>strtoll\<close> does.\<close>

definition sscanf_lld :: "string \<Rightarrow> int64_t option" where
  "sscanf_lld s =
     (case strto_decimal s of
        None \<Rightarrow> None
      | Some v \<Rightarrow> Some (word_of_int (max INT64_MIN (min INT64_MAX v))))"

text \<open>C division on \<open>int64_t\<close> truncates towards zero.\<close>

definition c_div64 :: "int64_t \<Rightarrow> int64_t \<Rightarrow> int64_t" where
  "c_div64 a b = word_of_int (sint a sdiv sint b)"

definition c_tolower :: "char \<Rightarrow> char" where
  "c_tolower c =
     (case map_of (zip ''ABCDEFGHIJKLMNOPQRSTUVWXYZ'' ''abcdefghijklmnopqrstuvwxyz'') c of
        Some l \<Rightarrow> l
      | None \<Rightarrow> c)"

definition strcasecmp_eq :: "string \<Rightarrow> string \<Rightarrow> bool" where
  "strcasecmp_eq a b = (map c_tolower a = map c_tolower b)"

text \<open>\<open>strncmp(buf, lit, n) == 0\<close> for a literal of exactly \<open>n\<close> characters.\<close>

definition has_prefix :: "string \<Rightarrow> string \<Rightarrow> bool" where
  "has_prefix lit buf = (take (length lit) buf = lit)"

text \<open>
  Decimal printing of \<open>snprintf("%lld")\<close>.
\<close>

fun dec_nat :: "nat \<Rightarrow> string" where
  "dec_nat n =
     (if n < 10 then [char_of (48 + n)]
      else dec_nat (n div 10) @ [char_of (48 + n mod 10)])"

declare dec_nat.simps [simp del]

definition dec_lld :: "int64_t \<Rightarrow> string" where
  "dec_lld v = (if sint v < 0 then CHR ''-'' # dec_nat (nat (- sint v)) else dec_nat (nat (sint v)))"

text \<open>
  The tokens \<open>strtok_r(s, "&", ...)\<close> yields one after the other: the maximal runs of
  characters other than the delimiter, empty runs skipped. \<open>cur\<close> is the run read so far.
\<close>

fun strtok_all :: "char \<Rightarrow> string \<Rightarrow> string \<Rightarrow> string list" where
  "strtok_all d cur [] = (if cur = [] then [] else [cur])"
| "strtok_all d cur (c # cs) =
     (if c = d then (if cur = [] then strtok_all d [] cs else cur # strtok_all d [] cs)
      else strtok_all d (cur @ [c]) cs)"

text \<open>\<open>strchr(pair, '=')\<close>: the key before the first \<open>=\<close> and the value after it.\<close>

definition split_pair :: "string \<Rightarrow> (string \<times> string) option" where
  "split_pair pair =
     (if CHR ''='' \<in> set pair
      then Some (takeWhile (\<lambda>c. c \<noteq> CHR ''='') pair,
                 tl (dropWhile (\<lambda>c. c \<noteq> CHR ''='') pair))
      else None)"

section \<open>Camera driver: pixel formats, frame sizes and the driver state\<close>

text \<open>
  \<open>pixformat_t\<close> and \<open>framesize_t\<close> are enumerations of the camera driver, whose header
  is not part of the repository. Pixel formats are compared with each other and cast
  from numbers (\<open>(pixformat_t)atoi(value)\<close>), so they are integers here, with the
  enumerators the firmware names numbered as the driver declares them. Frame sizes are
  only passed on; a number cast to \<open>framesize_t\<close> is kept as \<open>FRAMESIZE_NUMBER\<close>.
\<close>

type_synonym pixformat_t = int

definition PIXFORMAT_RGB565 :: pixformat_t where "PIXFORMAT_RGB565 = 0"
definition PIXFORMAT_YUV422 :: pixformat_t where "PIXFORMAT_YUV422 = 1"
definition PIXFORMAT_GRAYSCALE :: pixformat_t where "PIXFORMAT_GRAYSCALE = 3"
definition PIXFORMAT_JPEG :: pixformat_t where "PIXFORMAT_JPEG = 4"

datatype framesize_t =
    FRAMESIZE_QQVGA
  | FRAMESIZE_QVGA
  | FRAMESIZE_VGA
  | FRAMESIZE_SVGA
  | FRAMESIZE_XGA
  | FRAMESIZE_SXGA
  | FRAMESIZE_UXGA
  | FRAMESIZE_NUMBER int

definition DEFAULT_PIXEL_FORMAT :: pixformat_t where
  "DEFAULT_PIXEL_FORMAT = PIXFORMAT_JPEG"

definition parse_framesize :: "framesize_t \<Rightarrow> string \<Rightarrow> framesize_t" where
  "parse_framesize default_frame_size v =
     (if v \<noteq> [] \<and> c_isdigit (hd v) then FRAMESIZE_NUMBER (c_atoi v)
      else if strcasecmp_eq v ''qqvga'' then FRAMESIZE_QQVGA
      else if strcasecmp_eq v ''qvga'' then FRAMESIZE_QVGA
      else if strcasecmp_eq v ''vga'' then FRAMESIZE_VGA
      else if strcasecmp_eq v ''svga'' then FRAMESIZE_SVGA
      else if strcasecmp_eq v ''xga'' then FRAMESIZE_XGA
      else if strcasecmp_eq v ''sxga'' then FRAMESIZE_SXGA
      else if strcasecmp_eq v ''uxga'' then FRAMESIZE_UXGA
      else default_frame_size)"

definition parse_pixformat :: "string \<Rightarrow> pixformat_t" where
  "parse_pixformat v =
     (if v \<noteq> [] \<and> c_isdigit (hd v) then c_atoi v
      else if strcasecmp_eq v ''jpeg'' then PIXFORMAT_JPEG
      else if strcasecmp_eq v ''rgb565'' then PIXFORMAT_RGB565
      else if strcasecmp_eq v ''grayscale'' then PIXFORMAT_GRAYSCALE
      else if strcasecmp_eq v ''yuv422'' then PIXFORMAT_YUV422
      else DEFAULT_PIXEL_FORMAT)"

text \<open>
  The state of the camera pipeline as far as the pixel format goes: not initialised, or
  initialised and delivering a format. Frame size and the other sensor registers do not
  take part in any property below and are not tracked.
\<close>

datatype camera_state = Uninitialized | Active pixformat_t

text \<open>
  The camera operations of the firmware. \<open>CamInit ok pf\<close> is \<open>esp_camera_init\<close> with
  pixel format \<open>pf\<close> and its result; the other three are setters of the sensor handle,
  which exists only while the camera is initialised (the firmware skips them when
  \<open>esp_camera_sensor_get\<close> returns NULL).
\<close>

datatype cam_op =
    CamDeinit
  | CamInit bool pixformat_t
  | SetPixformat pixformat_t
  | SetFramesize framesize_t
  | SetSensorKey string int

fun cam_step :: "camera_state \<Rightarrow> cam_op \<Rightarrow> camera_state" where
  "cam_step cam CamDeinit = Uninitialized"
| "cam_step cam (CamInit ok pf) = (if ok then Active pf else Uninitialized)"
| "cam_step Uninitialized (SetPixformat pf) = Uninitialized"
| "cam_step (Active old) (SetPixformat pf) = Active pf"
| "cam_step cam (SetFramesize fs) = cam"
| "cam_step cam (SetSensorKey k v) = cam"


definition cam_run :: "camera_state \<Rightarrow> cam_op list \<Rightarrow> camera_state" where
  "cam_run cam ops = foldl cam_step cam ops"



text \<open>
  The loop over \<open>key=value\<close> pairs shared by apply_sensor_settings_from_query_str and
  the form branch of sensor_handler: \<open>framesize\<close> and \<open>pixel_format\<close> are parsed by
  name, every other key goes to apply_sensor_setting with \<open>atoi(value)\<close>.
\<close>

definition pair_sensor_op :: "framesize_t \<Rightarrow> string \<Rightarrow> cam_op list" where
  "pair_sensor_op default_frame_size pair =
     (case split_pair pair of
        None \<Rightarrow> []
      | Some (key, v) \<Rightarrow>
          if key = ''framesize'' then [SetFramesize (parse_framesize default_frame_size v)]
          else if key = ''pixel_format'' then [SetPixformat (parse_pixformat v)]
          else [SetSensorKey key (c_atoi v)])"

definition pairs_sensor_ops :: "framesize_t \<Rightarrow> string \<Rightarrow> cam_op list" where
  "pairs_sensor_ops default_frame_size content =
     concat (map (pair_sensor_op default_frame_size) (strtok_all CHR ''&'' [] content))"

text \<open>apply_sensor_settings_from_query_str copies the query into a 256-byte buffer.\<close>

definition apply_sensor_settings_from_query_str :: "framesize_t \<Rightarrow> string \<Rightarrow> cam_op list" where
  "apply_sensor_settings_from_query_str default_frame_size query =
     pairs_sensor_ops default_frame_size (take 255 (c_str query))"

text \<open>
  init_camera: \<open>esp_camera_init\<close> with JPEG, then the default frame size and pixel
  format are written to the sensor. init_camera_with_format: \<open>esp_camera_init\<close> with
  the given format.
\<close>

definition init_camera :: "framesize_t \<Rightarrow> bool \<Rightarrow> cam_op list" where
  "init_camera default_frame_size ok =
     (if ok then [CamInit True PIXFORMAT_JPEG, SetFramesize default_frame_size,
                  SetPixformat DEFAULT_PIXEL_FORMAT]
      else [CamInit False PIXFORMAT_JPEG])"

definition init_camera_with_format :: "bool \<Rightarrow> framesize_t \<Rightarrow> pixformat_t \<Rightarrow> cam_op list" where
  "init_camera_with_format ok fs pf = [CamInit ok pf]"

section \<open>Master: start delays (run_capture_sequence, main/app_main.c)\<close>

record capseq_sync_metrics_t =
  trip_time_us :: int64_t
  cpu_disparity_us :: int64_t

record start_delays =
  slave_start_delay_us :: int64_t
  master_start_delay_us :: int64_t

text \<open>
  \<open>safety_overhead_us\<close> of run_capture_sequence: the request's override when it is
  positive, else \<open>(int64_t)CONFIG_CAPSEQ_SYNC_SAFETY_MS * 1000\<close>. The Kconfig value is a
  C \<open>int\<close> and a parameter of the model.
\<close>

definition safety_overhead_us :: "32 word \<Rightarrow> int64_t \<Rightarrow> int64_t" where
  "safety_overhead_us config_sync_safety_ms cpu_time_to_start_us =
     (if 0 <s cpu_time_to_start_us then cpu_time_to_start_us
      else scast config_sync_safety_ms * 1000)"

text \<open>
  The delay computation of run_capture_sequence. \<open>slave_ready\<close> is still true here
  exactly when the READY poll and the clock probe both succeeded; otherwise trip and
  disparity count as 0.
\<close>

definition compute_start_delays ::
  "32 word \<Rightarrow> int64_t \<Rightarrow> bool \<Rightarrow> capseq_sync_metrics_t \<Rightarrow> start_delays" where
  "compute_start_delays config_sync_safety_ms cpu_time_to_start_us slave_ready metrics =
     (let safety = safety_overhead_us config_sync_safety_ms cpu_time_to_start_us;
          trip = (if slave_ready then trip_time_us metrics else 0);
          disp = (if slave_ready then cpu_disparity_us metrics else 0);
          slave_delay = safety;
          master_delay = safety + trip + disp
      in \<lparr> slave_start_delay_us = slave_delay,
           master_start_delay_us = (if master_delay <s 0 then 0 else master_delay) \<rparr>)"

section \<open>Master: clock probe (udp_sync_metrics, main/app_main.c)\<close>

text \<open>
  What one iteration of the ping loop observes: the master clock before the send and
  after the receive, and the datagram received (\<open>None\<close> when udp_send_and_recv returns
  an error: the send failed or no reply came within the socket timeout).
\<close>

record ping_obs =
  send_time :: int64_t
  recv_time :: int64_t
  rx_datagram :: "string option"

text \<open>
  parse_int64_payload: \<open>strtoll\<close> in base 10; false when nothing was converted or
  \<open>errno\<close> was set (the value is out of range).
\<close>

definition parse_int64_payload :: "string \<Rightarrow> int64_t option" where
  "parse_int64_payload buf =
     (case strto_decimal buf of
        None \<Rightarrow> None
      | Some v \<Rightarrow> if v < INT64_MIN \<or> INT64_MAX < v then None else Some (word_of_int v))"

text \<open>The ping loop: the accumulators are \<open>rtt_sum\<close>, \<open>disparity_sum\<close> and \<open>samples\<close>.\<close>

fun sync_loop ::
  "ping_obs list \<Rightarrow> int64_t \<times> int64_t \<times> nat \<Rightarrow> int64_t \<times> int64_t \<times> nat" where
  "sync_loop [] acc = acc"
| "sync_loop (p # ps) (rtt_sum, disparity_sum, samples) =
     (case rx_datagram p of
        None \<Rightarrow> sync_loop ps (rtt_sum, disparity_sum, samples)
      | Some d \<Rightarrow>
          (case parse_int64_payload (udp_recv_cstring 64 d) of
             None \<Rightarrow> sync_loop ps (rtt_sum, disparity_sum, samples)
           | Some slave_time \<Rightarrow>
               (let rtt_us = recv_time p - send_time p;
                    master_at_slave = send_time p + c_div64 rtt_us 2;
                    disparity_us = master_at_slave - slave_time
                in sync_loop ps
                     (rtt_sum + rtt_us, disparity_sum + disparity_us, Suc samples))))"

text \<open>
  udp_sync_metrics: \<open>socket_ok\<close> is the result of udp_open_slave_socket, \<open>pings\<close> the
  observations of the CONFIG_CAPSEQ_SYNC_UDP_PINGS iterations.
\<close>

definition udp_sync_metrics ::
  "bool \<Rightarrow> ping_obs list \<Rightarrow> esp_err_t \<times> capseq_sync_metrics_t" where
  "udp_sync_metrics socket_ok pings =
     (let zero = \<lparr> trip_time_us = 0, cpu_disparity_us = 0 \<rparr>
      in if \<not> socket_ok then (ESP_FAIL, zero)
         else (case sync_loop pings (0, 0, 0) of
                 (rtt_sum, disparity_sum, samples) \<Rightarrow>
                   if samples = 0 then (ESP_FAIL, zero)
                   else (let avg_rtt = c_div64 rtt_sum (of_nat samples)
                         in (ESP_OK,
                             \<lparr> trip_time_us = c_div64 avg_rtt 2,
                               cpu_disparity_us = c_div64 disparity_sum (of_nat samples) \<rparr>))))"

text \<open>
  The specification's side of the probe: a ping is a successful sample when a reply
  arrived and parses; the sample is the round trip \<open>recv_time - send_time\<close> and the
  disparity \<open>(send_time + rtt / 2) - slave_timestamp\<close>. The mean of a list is its sum
  divided by its length, in the integer division of the metrics' type.
\<close>

definition probe_sample :: "ping_obs \<Rightarrow> (int64_t \<times> int64_t) option" where
  "probe_sample p =
     (case rx_datagram p of
        None \<Rightarrow> None
      | Some d \<Rightarrow>
          (case parse_int64_payload (udp_recv_cstring 64 d) of
             None \<Rightarrow> None
           | Some slave_ts \<Rightarrow>
               Some (recv_time p - send_time p,
                     (send_time p + c_div64 (recv_time p - send_time p) 2) - slave_ts)))"

definition mean_us :: "int64_t list \<Rightarrow> int64_t" where
  "mean_us xs = c_div64 (sum_list xs) (of_nat (length xs))"

section \<open>Master: the capture sequence (run_capture_sequence, main/app_main.c)\<close>

record capture_request_t =
  req_session :: string
  req_query :: string
  req_frame_count :: int
  req_fs :: framesize_t
  req_fmt :: pixformat_t
  req_cpu_time_to_start_us :: int64_t

text \<open>One iteration of the record loop: no frame buffer, the file did not open, or written.\<close>

datatype frame_result = FbNull | OpenFailed | Written

text \<open>
  What the sequence meets on its way: the compile-time policy CAPSEQ_SLAVE_MISSING_OK,
  the configured safety margin, and the results of the calls it makes.
\<close>

record capture_env =
  slave_missing_ok :: bool
  config_sync_safety_ms :: "32 word"
  capture_init_ok :: bool
  wait_ready_ok :: bool
  sync_socket_ok :: bool
  sync_pings :: "ping_obs list"
  start_ok :: bool
  frame_results :: "nat \<Rightarrow> frame_result"
  restore_init_ok :: bool

text \<open>
  What the sequence did: its return value and \<open>err_msg\<close>, the camera operations in
  order, the delay sent in START (when it was sent), the master's own delay (when the
  deadline was reached), the loop indices at which a frame was pulled and those at which
  a file was written.
\<close>

record capture_run =
  run_result :: esp_err_t
  run_err_msg :: string
  run_cam_ops :: "cam_op list"
  run_start_sent :: "int64_t option"
  run_master_delay :: "int64_t option"
  run_pulled :: "nat list"
  run_saved :: "nat list"

definition MASTER_DEFAULT_FRAME_SIZE :: framesize_t where
  "MASTER_DEFAULT_FRAME_SIZE = FRAMESIZE_VGA"

text \<open>
  The record loop from index \<open>i\<close> with \<open>k\<close> iterations left: every iteration pulls a
  frame; \<open>continue\<close> after a failed pull or a failed open goes on to the next index.
\<close>

fun record_loop :: "(nat \<Rightarrow> frame_result) \<Rightarrow> nat \<Rightarrow> nat \<Rightarrow> nat list \<times> nat list" where
  "record_loop fr i 0 = ([], [])"
| "record_loop fr i (Suc k) =
     (case record_loop fr (Suc i) k of
        (pulled, saved) \<Rightarrow> (i # pulled, if fr i = Written then i # saved else saved))"

definition capture_fail :: "string \<Rightarrow> cam_op list \<Rightarrow> int64_t option \<Rightarrow> capture_run" where
  "capture_fail msg ops sent =
     \<lparr> run_result = ESP_FAIL, run_err_msg = msg, run_cam_ops = ops, run_start_sent = sent,
       run_master_delay = None, run_pulled = [], run_saved = [] \<rparr>"

definition run_capture_sequence :: "capture_env \<Rightarrow> capture_request_t \<Rightarrow> capture_run" where
  "run_capture_sequence env req =
     (let ops1 = CamDeinit # init_camera_with_format (capture_init_ok env) (req_fs req) (req_fmt req)
      in if \<not> capture_init_ok env then capture_fail ''camera init failed'' ops1 None
      else
        let ops2 = ops1 @ apply_sensor_settings_from_query_str MASTER_DEFAULT_FRAME_SIZE (req_query req)
        in if \<not> wait_ready_ok env \<and> \<not> slave_missing_ok env
           then capture_fail ''slave not ready'' ops2 None
        else
          let slave_ready1 = wait_ready_ok env;
              sync = (if slave_ready1 then udp_sync_metrics (sync_socket_ok env) (sync_pings env)
                      else (ESP_OK, \<lparr> trip_time_us = 0, cpu_disparity_us = 0 \<rparr>))
          in if slave_ready1 \<and> fst sync \<noteq> ESP_OK \<and> \<not> slave_missing_ok env
             then capture_fail ''udp sync failed'' ops2 None
          else
            let slave_ready2 = (slave_ready1 \<and> fst sync = ESP_OK);
                d = compute_start_delays (config_sync_safety_ms env)
                      (req_cpu_time_to_start_us req) slave_ready2 (snd sync);
                sent = (if slave_ready2 then Some (slave_start_delay_us d) else None)
            in if slave_ready2 \<and> \<not> start_ok env \<and> \<not> slave_missing_ok env
               then capture_fail ''slave start failed'' ops2 sent
            else
              (case record_loop (frame_results env) 0 (nat (req_frame_count req)) of
                 (pulled, saved) \<Rightarrow>
                   \<lparr> run_result = ESP_OK, run_err_msg = [],
                     run_cam_ops = ops2 @ CamDeinit
                       # init_camera MASTER_DEFAULT_FRAME_SIZE (restore_init_ok env),
                     run_start_sent = sent,
                     run_master_delay = Some (master_start_delay_us d),
                     run_pulled = pulled, run_saved = saved \<rparr>))"

text \<open>The diagnostics of the exits that precede the record phase.\<close>

definition pre_record_messages :: "string list" where
  "pre_record_messages =
     [''camera init failed'', ''slave not ready'', ''udp sync failed'', ''slave start failed'']"

section \<open>Master: capture queue, capture task and HTTP handler (main/app_main.c)\<close>




datatype handler_exit =
    Exit_missing_query
  | Exit_task_not_ready
  | Exit_no_mem
  | Exit_busy
  | Exit_timeout
  | Exit_failed string
  | Exit_ok







text \<open>
  A blocking take of a binary semaphore, as FreeRTOS defines it (with task suspension
  enabled, as in ESP-IDF): \<open>given_after\<close> is the number of ticks after the call at which
  the semaphore is given (\<open>None\<close>: never). With a finite timeout the call returns
  \<open>pdTRUE\<close> when the semaphore arrives in time and \<open>pdFALSE\<close> otherwise; with
  \<open>portMAX_DELAY\<close> it returns only when the semaphore arrives. \<open>None\<close>: it never returns.
\<close>

datatype TickType_t = Ticks nat | portMAX_DELAY

fun xSemaphoreTake :: "TickType_t \<Rightarrow> nat option \<Rightarrow> bool option" where
  "xSemaphoreTake (Ticks n) (Some t) = Some (t \<le> n)"
| "xSemaphoreTake (Ticks n) None = Some False"
| "xSemaphoreTake portMAX_DELAY (Some t) = Some True"
| "xSemaphoreTake portMAX_DELAY None = None"

text \<open>
  capture_handler's surroundings: the URL query (\<open>None\<close> when
  httpd_req_get_url_query_str fails), the values httpd_query_key_value finds in it
  (\<open>Some v\<close> when it returns ESP_OK for the key, into a 32-byte buffer), whether the
  queue exists, the two allocations, the result of \<open>xQueueSend\<close>, when the capture task
  gives the request's semaphore, and what the capture sequence meets.
\<close>

record handler_env =
  url_query :: "string option"
  key_value :: "string \<Rightarrow> string option"
  queue_created :: bool
  calloc_ok :: bool
  sem_create_ok :: bool
  queue_send_ok :: bool
  done_given_after :: "nat option"
  sequence_env :: capture_env

text \<open>The frame count both capture handlers compute from the \<open>frame_count\<close> parameter.\<close>

definition capture_frame_count :: "string option \<Rightarrow> int" where
  "capture_frame_count v =
     (let frame_count = (case v of Some s \<Rightarrow> c_atoi s | None \<Rightarrow> 0)
      in if frame_count \<le> 0 then 1 else frame_count)"

definition c_atoll :: "string \<Rightarrow> int64_t" where
  "c_atoll s =
     (case strto_decimal s of
        None \<Rightarrow> 0
      | Some v \<Rightarrow> word_of_int (max INT64_MIN (min INT64_MAX v)))"

definition capture_request_of :: "string \<Rightarrow> (string \<Rightarrow> string option) \<Rightarrow> capture_request_t" where
  "capture_request_of q kv =
     (let session = (case kv ''session'' of Some s \<Rightarrow> s | None \<Rightarrow> ''session'');
          frame_count = capture_frame_count (kv ''frame_count'');
          fs = (case kv ''framesize'' of
                  Some v \<Rightarrow> parse_framesize MASTER_DEFAULT_FRAME_SIZE v
                | None \<Rightarrow> MASTER_DEFAULT_FRAME_SIZE);
          fmt = (case kv ''pixel_format'' of
                   Some v \<Rightarrow> parse_pixformat v
                 | None \<Rightarrow> DEFAULT_PIXEL_FORMAT);
          cpu_time_to_start_ms = (case kv ''cpu_time_to_start'' of
                                    Some v \<Rightarrow> c_atoll v
                                  | None \<Rightarrow> - 1)
      in \<lparr> req_session = take 31 session, req_query = take 255 q,
           req_frame_count = frame_count, req_fs = fs, req_fmt = fmt,
           req_cpu_time_to_start_us =
             (if 0 <s cpu_time_to_start_ms then cpu_time_to_start_ms * 1000 else 0) \<rparr>)"

text \<open>
  The wait of capture_handler on the request's semaphore and what follows it. The
  handler passes \<open>portMAX_DELAY\<close>. \<open>None\<close>: the handler never returns.
\<close>

definition await_capture ::
  "TickType_t \<Rightarrow> nat option \<Rightarrow> capture_run \<Rightarrow> handler_exit option" where
  "await_capture timeout given_after run =
     (case xSemaphoreTake timeout given_after of
        None \<Rightarrow> None
      | Some False \<Rightarrow> Some Exit_timeout
      | Some True \<Rightarrow>
          Some (if run_result run \<noteq> ESP_OK
                then Exit_failed (if run_err_msg run \<noteq> [] then run_err_msg run
                                  else ''capture failed'')
                else Exit_ok))"

text \<open>
  capture_handler of the master: its exit (\<open>None\<close> when it never returns) and the
  request it put on the queue, if it got that far.
\<close>

definition capture_handler :: "handler_env \<Rightarrow> handler_exit option \<times> capture_request_t option" where
  "capture_handler env =
     (case url_query env of
        None \<Rightarrow> (Some Exit_missing_query, None)
      | Some q \<Rightarrow>
          (let cap = capture_request_of q (key_value env)
           in if \<not> queue_created env then (Some Exit_task_not_ready, None)
              else if \<not> calloc_ok env then (Some Exit_no_mem, None)
              else if \<not> sem_create_ok env then (Some Exit_no_mem, None)
              else if \<not> queue_send_ok env then (Some Exit_busy, None)
              else (await_capture portMAX_DELAY (done_given_after env)
                      (run_capture_sequence (sequence_env env) cap),
                    Some cap)))"

section \<open>Slave: capture slot, prepare and start (unnamed/part_002)\<close>

record slave_capture_request_t =
  sreq_session :: string
  sreq_query :: string
  sreq_frame_count :: int
  sreq_fs :: framesize_t
  sreq_fmt :: pixformat_t
  sreq_need_reinit :: bool

text \<open>The slot: \<open>s_capture_ready\<close>, \<open>s_capture_in_progress\<close> and \<open>s_capture_req\<close>.\<close>

record capture_slot =
  s_capture_ready :: bool
  s_capture_in_progress :: bool
  s_capture_req :: slave_capture_request_t

definition SLAVE_DEFAULT_FRAME_SIZE :: framesize_t where
  "SLAVE_DEFAULT_FRAME_SIZE = FRAMESIZE_SVGA"

text \<open>
  The reconfiguration block of prepare_slave_capture: a format other than JPEG takes a
  full deinit and init_camera_with_format; JPEG takes the two sensor setters.
\<close>

definition prepare_reconfig :: "bool \<Rightarrow> framesize_t \<Rightarrow> pixformat_t \<Rightarrow> cam_op list" where
  "prepare_reconfig init_ok fs fmt =
     (if fmt \<noteq> PIXFORMAT_JPEG then CamDeinit # init_camera_with_format init_ok fs fmt
      else [SetFramesize fs, SetPixformat fmt])"

text \<open>
  prepare_slave_capture run on its own: whether the mutex exists, the results of its two
  timed takes of the mutex and of the camera init.
\<close>

record prepare_env =
  p_mutex_created :: bool
  p_take_check_ok :: bool
  p_init_ok :: bool
  p_take_commit_ok :: bool

definition prepare_slave_capture ::
  "prepare_env \<Rightarrow> capture_slot \<Rightarrow> string \<Rightarrow> string \<Rightarrow> int \<Rightarrow> framesize_t \<Rightarrow> pixformat_t
     \<Rightarrow> esp_err_t \<times> cam_op list \<times> capture_slot" where
  "prepare_slave_capture env slot query session frame_count fs fmt =
     (if frame_count \<le> 0 then (ESP_ERR_INVALID_ARG, [], slot)
      else if \<not> p_mutex_created env then (ESP_ERR_INVALID_STATE, [], slot)
      else if \<not> p_take_check_ok env then (ESP_ERR_TIMEOUT, [], slot)
      else if s_capture_ready slot \<or> s_capture_in_progress slot
        then (ESP_ERR_INVALID_STATE, [], slot)
      else
        let need_reinit = (fmt \<noteq> PIXFORMAT_JPEG);
            ops1 = prepare_reconfig (p_init_ok env) fs fmt
        in if need_reinit \<and> \<not> p_init_ok env then (ESP_FAIL, ops1, slot)
           else
             let ops2 = ops1 @ apply_sensor_settings_from_query_str SLAVE_DEFAULT_FRAME_SIZE query
             in if \<not> p_take_commit_ok env then (ESP_ERR_TIMEOUT, ops2, slot)
                else (ESP_OK, ops2,
                      slot \<lparr> s_capture_req :=
                               \<lparr> sreq_session = take 31 session, sreq_query = take 255 query,
                                 sreq_frame_count = frame_count, sreq_fs = fs, sreq_fmt = fmt,
                                 sreq_need_reinit = need_reinit \<rparr>,
                             s_capture_ready := True \<rparr>))"

text \<open>
  The slave's capture_handler: the URL query (empty when there is none), the body
  (\<open>None\<close> when read_body fails, empty when \<open>content_len\<close> is 0), the values
  httpd_query_key_value finds in the combined parameters, and prepare's surroundings.
\<close>

record slave_handler_env =
  sh_query :: string
  sh_body :: "string option"
  sh_key_value :: "string \<Rightarrow> string option"
  sh_prepare :: prepare_env
  sh_slot :: capture_slot

datatype slave_exit =
    SExit_invalid_body
  | SExit_missing_params
  | SExit_busy
  | SExit_prep_failed
  | SExit_ok

fun slave_http_response :: "slave_exit \<Rightarrow> nat \<times> string" where
  "slave_http_response SExit_invalid_body = (400, ''invalid body'')"
| "slave_http_response SExit_missing_params = (400, ''missing params'')"
| "slave_http_response SExit_busy = (409, ''capture busy'')"
| "slave_http_response SExit_prep_failed = (409, ''capture prep failed'')"
| "slave_http_response SExit_ok = (200, ''OK'')"

text \<open>
  The exit, and the arguments and result of the call of prepare_slave_capture when the
  handler gets that far.
\<close>

definition slave_capture_handler ::
  "slave_handler_env \<Rightarrow> slave_exit \<times> (int \<times> esp_err_t \<times> capture_slot) option" where
  "slave_capture_handler env =
     (case sh_body env of
        None \<Rightarrow> (SExit_invalid_body, None)
      | Some body \<Rightarrow>
          if body = [] \<and> sh_query env = [] then (SExit_missing_params, None)
          else
            let combined = (if body \<noteq> [] \<and> sh_query env \<noteq> []
                            then take 511 (body @ ''&'' @ sh_query env)
                            else if body \<noteq> [] then body else sh_query env);
                kv = sh_key_value env;
                session = (case kv ''session'' of Some s \<Rightarrow> s | None \<Rightarrow> ''session'');
                frame_count = capture_frame_count (kv ''frame_count'');
                fs = (case kv ''framesize'' of
                        Some v \<Rightarrow> parse_framesize SLAVE_DEFAULT_FRAME_SIZE v
                      | None \<Rightarrow> SLAVE_DEFAULT_FRAME_SIZE);
                fmt = (case kv ''pixel_format'' of
                         Some v \<Rightarrow> parse_pixformat v
                       | None \<Rightarrow> DEFAULT_PIXEL_FORMAT);
                prep = prepare_slave_capture (sh_prepare env) (sh_slot env)
                         combined session frame_count fs fmt;
                prep_err = fst prep
            in (if prep_err \<noteq> ESP_OK
                then (if prep_err = ESP_ERR_INVALID_STATE then SExit_busy
                      else SExit_prep_failed)
                else SExit_ok,
                Some (frame_count, prep_err, snd (snd prep))))"

text \<open>
  The form branch of sensor_handler: each \<open>key=value\<close> pair of the body is applied to
  the sensor; \<open>pixel_format\<close> goes to \<open>set_pixformat\<close>.
\<close>

definition sensor_handler_form ::
  "bool \<Rightarrow> camera_state \<Rightarrow> string \<Rightarrow> (nat \<times> string) \<times> cam_op list" where
  "sensor_handler_form body_ok cam content =
     (if \<not> body_ok then ((400, ''invalid body''), [])
      else if cam = Uninitialized then ((500, ''sensor not ready''), [])
      else ((200, ''OK''), pairs_sensor_ops SLAVE_DEFAULT_FRAME_SIZE (c_str content)))"

section \<open>Slave: the UDP sync server (udp_sync_task, unnamed/part_002)\<close>

text \<open>
  What the server task does while it handles one datagram, in order: a \<open>sendto\<close> of a
  reply, and the call of run_slave_capture with the start delay.
\<close>

datatype udp_event = SendTo string | RunSlaveCapture int64_t

text \<open>
  The surroundings of one datagram: whether the mutex exists, the result of the
  untimed take of the READY and START checks, the results of the two timed takes of
  start_slave_capture, the slave clock for the echo and the result of the capture.
\<close>

record udp_env =
  u_mutex_created :: bool
  u_try_take_ok :: bool
  u_take_start_ok :: bool
  u_take_finish_ok :: bool
  u_now_us :: int64_t
  u_capture_result :: esp_err_t

text \<open>start_slave_capture: the events, the slot afterwards and the return value.\<close>

definition start_slave_capture ::
  "udp_env \<Rightarrow> capture_slot \<Rightarrow> int64_t \<Rightarrow> udp_event list \<times> capture_slot \<times> bool" where
  "start_slave_capture env slot start_delay_us =
     (if \<not> u_mutex_created env then ([], slot, False)
      else if \<not> u_take_start_ok env then ([], slot, False)
      else if \<not> s_capture_ready slot \<or> s_capture_in_progress slot then ([], slot, False)
      else
        let slot1 = slot \<lparr> s_capture_in_progress := True, s_capture_ready := False \<rparr>;
            slot2 = (if u_take_finish_ok env then slot1 \<lparr> s_capture_in_progress := False \<rparr>
                     else slot1)
        in ([RunSlaveCapture start_delay_us], slot2, u_capture_result env = ESP_OK))"

definition slot_armed :: "udp_env \<Rightarrow> capture_slot \<Rightarrow> bool" where
  "slot_armed env slot =
     (u_mutex_created env \<and> u_try_take_ok env
      \<and> s_capture_ready slot \<and> \<not> s_capture_in_progress slot)"

text \<open>One turn of the receive loop of udp_sync_task on a datagram that arrived.\<close>

definition udp_handle_datagram ::
  "udp_env \<Rightarrow> capture_slot \<Rightarrow> string \<Rightarrow> udp_event list \<times> capture_slot" where
  "udp_handle_datagram env slot datagram =
     (let rx_buf = udp_recv_cstring 64 datagram
      in if has_prefix ''READY'' rx_buf
         then ([SendTo (if slot_armed env slot then ''OK'' else ''NO'')], slot)
         else if has_prefix ''START'' rx_buf
         then (case sscanf_lld (drop 5 rx_buf) of
                 None \<Rightarrow> ([SendTo ''NO''], slot)
               | Some delay_us \<Rightarrow>
                   if delay_us <s 0 then ([SendTo ''NO''], slot)
                   else if slot_armed env slot
                   then (case start_slave_capture env slot delay_us of
                           (evs, slot', ok) \<Rightarrow> (SendTo ''ACK'' # evs, slot'))
                   else ([SendTo ''NO''], slot))
         else if parse_int64_payload rx_buf \<noteq> None
         then ([SendTo (dec_lld (u_now_us env))], slot)
         else ([SendTo ''ERR''], slot))"

text \<open>
  In a sequence of events, every call of run_slave_capture comes after a \<open>sendto\<close> of
  \<open>ACK\<close>; \<open>acked\<close> says whether one has been seen.
\<close>

fun ack_before_launch :: "bool \<Rightarrow> udp_event list \<Rightarrow> bool" where
  "ack_before_launch acked [] = True"
| "ack_before_launch acked (SendTo r # evs) = ack_before_launch (acked \<or> r = ''ACK'') evs"
| "ack_before_launch acked (RunSlaveCapture d # evs) = (acked \<and> ack_before_launch acked evs)"

section \<open>Slave: the capture slot under interleaving (unnamed/part_002)\<close>











section \<open>Unfolding rules for evaluating the model on concrete inputs\<close>

lemmas c_parse_defs =
  parse_int64_payload_def udp_recv_cstring_def c_str_def strto_decimal_def c_isspace_def
  c_isdigit_def digits_value_def digit_value_def INT64_MIN_def INT64_MAX_def
  INT_MIN_def INT_MAX_def c_atoi_def sscanf_lld_def

lemmas pair_defs = sensor_handler_form_def pairs_sensor_ops_def pair_sensor_op_def split_pair_def
  parse_pixformat_def parse_framesize_def strcasecmp_eq_def c_tolower_def
  PIXFORMAT_JPEG_def PIXFORMAT_RGB565_def PIXFORMAT_GRAYSCALE_def PIXFORMAT_YUV422_def
  DEFAULT_PIXEL_FORMAT_def

lemmas seq_defs = run_capture_sequence_def capture_fail_def init_camera_with_format_def
  init_camera_def apply_sensor_settings_from_query_str_def cam_run_def
  MASTER_DEFAULT_FRAME_SIZE_def

section \<open>Start delays: results\<close>

text \<open>
  C1, as stated, fails: the identity master_delay - slave_delay = trip + disp is claimed
  for every probe result, but the master delay is clamped at 0. With the default
  safety of 1000 ms, a trip of 2000 us and a slave clock 5 s ahead of the master's
  (disparity -5000000 us), the master delay is 0, the slave delay is 1000000 and their
  difference is -1000000, not trip + disp = -4998000.
\<close>

theorem delay_identity_counterexample:
  "master_start_delay_us (compute_start_delays 1000 0 True
       \<lparr> trip_time_us = 2000, cpu_disparity_us = - 5000000 \<rparr>)
     - slave_start_delay_us (compute_start_delays 1000 0 True
       \<lparr> trip_time_us = 2000, cpu_disparity_us = - 5000000 \<rparr>)
   \<noteq> (2000 :: int64_t) + (- 5000000)"
  by (simp add: compute_start_delays_def safety_overhead_us_def Let_def word_sless_alt)

text \<open>
  C1, amended: for every completed clock probe with metrics (trip, disp) and the chosen
  safety overhead S (the request override when positive, else the configured default),
  the slave start delay equals S, the master start delay equals max(0, S + trip + disp)
  in 64-bit signed arithmetic, and the identity master_delay - slave_delay = trip + disp
  holds exactly whenever S + trip + disp is not negative; when it is negative the master
  delay is 0.
\<close>

theorem delay_identity:
  fixes cfg :: "32 word" and override :: int64_t and m :: capseq_sync_metrics_t
  defines "S \<equiv> safety_overhead_us cfg override"
  defines "d \<equiv> compute_start_delays cfg override True m"
  shows "slave_start_delay_us d = S
       \<and> sint (master_start_delay_us d)
           = max 0 (sint (S + trip_time_us m + cpu_disparity_us m))
       \<and> (0 \<le> sint (S + trip_time_us m + cpu_disparity_us m) \<longrightarrow>
            master_start_delay_us d - slave_start_delay_us d
              = trip_time_us m + cpu_disparity_us m)
       \<and> (sint (S + trip_time_us m + cpu_disparity_us m) < 0 \<longrightarrow>
            master_start_delay_us d = 0)"
  unfolding S_def d_def
  by (simp add: compute_start_delays_def Let_def word_sless_alt max_def)

theorem delay_identity_witness:
  "0 \<le> sint (safety_overhead_us 1000 50000 + 2000 + (- 8000) :: int64_t)
   \<and> master_start_delay_us (compute_start_delays 1000 50000 True
         \<lparr> trip_time_us = 2000, cpu_disparity_us = - 8000 \<rparr>)
       - slave_start_delay_us (compute_start_delays 1000 50000 True
         \<lparr> trip_time_us = 2000, cpu_disparity_us = - 8000 \<rparr>) = 2000 + (- 8000)"
proof -
  let ?m = "\<lparr> trip_time_us = 2000, cpu_disparity_us = - 8000 \<rparr>"
  have h: "0 \<le> sint (safety_overhead_us 1000 50000 + trip_time_us ?m + cpu_disparity_us ?m)"
    by (simp add: safety_overhead_us_def word_sless_alt)
  have "master_start_delay_us (compute_start_delays 1000 50000 True ?m)
          - slave_start_delay_us (compute_start_delays 1000 50000 True ?m)
        = trip_time_us ?m + cpu_disparity_us ?m"
    using delay_identity [of 1000 50000 ?m] h by blast
  then show ?thesis using h by simp
qed

section \<open>Clock probe: results\<close>

lemma sync_loop_acc:
  "sync_loop ps (a, b, n) =
     (a + sum_list (map fst (List.map_filter probe_sample ps)),
      b + sum_list (map snd (List.map_filter probe_sample ps)),
      n + length (List.map_filter probe_sample ps))"
proof (induction ps arbitrary: a b n)
  case Nil
  then show ?case by (simp add: List.map_filter_simps)
next
  case (Cons p ps)
  then show ?case
    by (simp add: List.map_filter_simps probe_sample_def Let_def add.assoc
             split: option.splits)
qed

text \<open>
  C4: when the socket cannot be opened or no ping yields a reply that parses, the probe
  returns an error and both metrics are 0. Otherwise it succeeds, the disparity is the
  mean of the per-sample disparities \<open>(send_time + rtt / 2) - slave_timestamp\<close> and the
  trip time is half the mean of the round trips \<open>recv_time - send_time\<close>, all over the
  successful samples, in the truncating integer division of \<open>int64_t\<close>.
\<close>

theorem udp_sync_metrics_mean:
  fixes pings :: "ping_obs list"
  defines "samples \<equiv> List.map_filter probe_sample pings"
  shows "udp_sync_metrics False pings
           = (ESP_FAIL, \<lparr> trip_time_us = 0, cpu_disparity_us = 0 \<rparr>)
       \<and> udp_sync_metrics True pings =
           (if samples = [] then (ESP_FAIL, \<lparr> trip_time_us = 0, cpu_disparity_us = 0 \<rparr>)
            else (ESP_OK, \<lparr> trip_time_us = c_div64 (mean_us (map fst samples)) 2,
                            cpu_disparity_us = mean_us (map snd samples) \<rparr>))"
  unfolding samples_def
  by (simp add: udp_sync_metrics_def sync_loop_acc mean_us_def Let_def)

text \<open>
  Four pings with round trips of 4000, 4200, 3800 and 4000 us and a slave clock
  10000 us ahead: the trip time is 2000 us and the disparity -10000 us.
\<close>

theorem udp_sync_metrics_mean_witness:
  "udp_sync_metrics True
     [\<lparr> send_time = 100000, recv_time = 104000, rx_datagram = Some ''112000'' \<rparr>,
      \<lparr> send_time = 200000, recv_time = 204200, rx_datagram = Some ''212100'' \<rparr>,
      \<lparr> send_time = 300000, recv_time = 303800, rx_datagram = Some ''311900'' \<rparr>,
      \<lparr> send_time = 400000, recv_time = 404000, rx_datagram = Some ''412000'' \<rparr>]
   = (ESP_OK, \<lparr> trip_time_us = 2000, cpu_disparity_us = - 10000 \<rparr>)"
  using udp_sync_metrics_mean
    [of "[\<lparr> send_time = 100000, recv_time = 104000, rx_datagram = Some ''112000'' \<rparr>,
          \<lparr> send_time = 200000, recv_time = 204200, rx_datagram = Some ''212100'' \<rparr>,
          \<lparr> send_time = 300000, recv_time = 303800, rx_datagram = Some ''311900'' \<rparr>,
          \<lparr> send_time = 400000, recv_time = 404000, rx_datagram = Some ''412000'' \<rparr>]"]
  by (simp add: List.map_filter_simps probe_sample_def mean_us_def c_div64_def
        signed_divide_int_def c_parse_defs)

section \<open>UDP sync server: results\<close>

text \<open>
  C5: whatever datagram arrives and whatever the state of the slot and of the mutex, the
  server task sends exactly one reply, and it calls run_slave_capture only after it
  has sent \<open>ACK\<close>: the events of one datagram are either a single \<open>sendto\<close>, or the
  \<open>sendto\<close> of \<open>ACK\<close> followed by the launch.
\<close>

theorem ack_precedes_launch:
  fixes env :: udp_env and slot :: capture_slot and datagram :: string
  defines "evs \<equiv> fst (udp_handle_datagram env slot datagram)"
  shows "ack_before_launch False evs
       \<and> ((\<exists>r. evs = [SendTo r]) \<or> (\<exists>d. evs = [SendTo ''ACK'', RunSlaveCapture d]))"
  unfolding evs_def
  by (simp add: udp_handle_datagram_def start_slave_capture_def slot_armed_def Let_def
           split: option.splits)

text \<open>\<open>START 5000\<close> on an armed slot: \<open>ACK\<close> is sent, then the capture is launched.\<close>

theorem ack_precedes_launch_witness:
  "ack_before_launch False
     (fst (udp_handle_datagram
        \<lparr> u_mutex_created = True, u_try_take_ok = True, u_take_start_ok = True,
          u_take_finish_ok = True, u_now_us = 123456, u_capture_result = ESP_OK \<rparr>
        \<lparr> s_capture_ready = True, s_capture_in_progress = False,
          s_capture_req =
            \<lparr> sreq_session = ''s'', sreq_query = [], sreq_frame_count = 1,
              sreq_fs = FRAMESIZE_VGA, sreq_fmt = PIXFORMAT_JPEG,
              sreq_need_reinit = False \<rparr> \<rparr>
        ''START 5000''))
   \<and> fst (udp_handle_datagram
        \<lparr> u_mutex_created = True, u_try_take_ok = True, u_take_start_ok = True,
          u_take_finish_ok = True, u_now_us = 123456, u_capture_result = ESP_OK \<rparr>
        \<lparr> s_capture_ready = True, s_capture_in_progress = False,
          s_capture_req =
            \<lparr> sreq_session = ''s'', sreq_query = [], sreq_frame_count = 1,
              sreq_fs = FRAMESIZE_VGA, sreq_fmt = PIXFORMAT_JPEG,
              sreq_need_reinit = False \<rparr> \<rparr>
        ''START 5000'') = [SendTo ''ACK'', RunSlaveCapture 5000]"
proof -
  let ?evs = "fst (udp_handle_datagram
        \<lparr> u_mutex_created = True, u_try_take_ok = True, u_take_start_ok = True,
          u_take_finish_ok = True, u_now_us = 123456, u_capture_result = ESP_OK \<rparr>
        \<lparr> s_capture_ready = True, s_capture_in_progress = False,
          s_capture_req =
            \<lparr> sreq_session = ''s'', sreq_query = [], sreq_frame_count = 1,
              sreq_fs = FRAMESIZE_VGA, sreq_fmt = PIXFORMAT_JPEG,
              sreq_need_reinit = False \<rparr> \<rparr>
        ''START 5000'')"
  have a: "ack_before_launch False ?evs"
    using ack_precedes_launch by blast
  have b: "?evs = [SendTo ''ACK'', RunSlaveCapture 5000]"
    by (simp add: udp_handle_datagram_def start_slave_capture_def slot_armed_def Let_def
          has_prefix_def c_parse_defs word_sless_alt)
  from a b show ?thesis by blast
qed

section \<open>Capture slot: results\<close>









section \<open>Pixel format switches: results\<close>




section \<open>Capture sequence: results\<close>

text \<open>
  C6: the claim is right and the code breaks it. The restore block stands only at the
  end of run_capture_sequence; each of the four failure exits returns before it. A
  request for RGB565 whose slave does not answer READY (with the default policy) leaves
  the master's camera initialised for RGB565, not restored to the JPEG streaming
  default.
\<close>

theorem restore_skipped_on_failure:
  "run_result (run_capture_sequence
       \<lparr> slave_missing_ok = False, config_sync_safety_ms = 1000, capture_init_ok = True,
         wait_ready_ok = False, sync_socket_ok = True, sync_pings = [], start_ok = True,
         frame_results = (\<lambda>i. Written), restore_init_ok = True \<rparr>
       \<lparr> req_session = ''s'', req_query = ''pixel_format=rgb565'',
         req_frame_count = 1, req_fs = FRAMESIZE_VGA, req_fmt = PIXFORMAT_RGB565,
         req_cpu_time_to_start_us = 0 \<rparr>) = ESP_FAIL
   \<and> run_err_msg (run_capture_sequence
       \<lparr> slave_missing_ok = False, config_sync_safety_ms = 1000, capture_init_ok = True,
         wait_ready_ok = False, sync_socket_ok = True, sync_pings = [], start_ok = True,
         frame_results = (\<lambda>i. Written), restore_init_ok = True \<rparr>
       \<lparr> req_session = ''s'', req_query = ''pixel_format=rgb565'',
         req_frame_count = 1, req_fs = FRAMESIZE_VGA, req_fmt = PIXFORMAT_RGB565,
         req_cpu_time_to_start_us = 0 \<rparr>) = ''slave not ready''
   \<and> cam_run (Active PIXFORMAT_JPEG) (run_cam_ops (run_capture_sequence
       \<lparr> slave_missing_ok = False, config_sync_safety_ms = 1000, capture_init_ok = True,
         wait_ready_ok = False, sync_socket_ok = True, sync_pings = [], start_ok = True,
         frame_results = (\<lambda>i. Written), restore_init_ok = True \<rparr>
       \<lparr> req_session = ''s'', req_query = ''pixel_format=rgb565'',
         req_frame_count = 1, req_fs = FRAMESIZE_VGA, req_fmt = PIXFORMAT_RGB565,
         req_cpu_time_to_start_us = 0 \<rparr>)) = Active PIXFORMAT_RGB565"
  by (simp add: seq_defs pair_defs c_parse_defs Let_def)

text \<open>
  On the path that returns ESP_OK the restore block runs: the camera ends in JPEG
  when the restoring init succeeds, and uninitialised when it fails.
\<close>

lemma restore_on_success:
  assumes "run_result (run_capture_sequence env req) = ESP_OK"
  shows "cam_run cam (run_cam_ops (run_capture_sequence env req))
           = (if restore_init_ok env then Active PIXFORMAT_JPEG else Uninitialized)"
  using assms
  by (auto simp: run_capture_sequence_def capture_fail_def Let_def cam_run_def init_camera_def
        DEFAULT_PIXEL_FORMAT_def split: if_splits prod.splits)

lemma record_loop_upt:
  "record_loop fr i k = ([i..<i + k], filter (\<lambda>j. fr j = Written) [i..<i + k])"
proof (induction k arbitrary: i)
  case 0
  then show ?case by simp
next
  case (Suc k)
  have "[i..<i + Suc k] = i # [Suc i..<Suc i + k]"
    by (simp add: upt_conv_Cons)
  with Suc show ?case by simp
qed

text \<open>
  C7, as stated, fails: with three frames requested and every pull returning no frame
  buffer, all three indices are attempted, nothing is saved, and the sequence still
  returns ESP_OK; zero successful frames do not make it report failure.
\<close>

theorem record_failure_counterexample:
  "run_result (run_capture_sequence
       \<lparr> slave_missing_ok = False, config_sync_safety_ms = 1000, capture_init_ok = True,
         wait_ready_ok = True, sync_socket_ok = True,
         sync_pings = [\<lparr> send_time = 100000, recv_time = 104000,
                         rx_datagram = Some ''112000'' \<rparr>],
         start_ok = True, frame_results = (\<lambda>i. FbNull), restore_init_ok = True \<rparr>
       \<lparr> req_session = ''s'', req_query = ''frame_count=3'',
         req_frame_count = 3, req_fs = FRAMESIZE_VGA, req_fmt = PIXFORMAT_JPEG,
         req_cpu_time_to_start_us = 0 \<rparr>) = ESP_OK
   \<and> run_pulled (run_capture_sequence
       \<lparr> slave_missing_ok = False, config_sync_safety_ms = 1000, capture_init_ok = True,
         wait_ready_ok = True, sync_socket_ok = True,
         sync_pings = [\<lparr> send_time = 100000, recv_time = 104000,
                         rx_datagram = Some ''112000'' \<rparr>],
         start_ok = True, frame_results = (\<lambda>i. FbNull), restore_init_ok = True \<rparr>
       \<lparr> req_session = ''s'', req_query = ''frame_count=3'',
         req_frame_count = 3, req_fs = FRAMESIZE_VGA, req_fmt = PIXFORMAT_JPEG,
         req_cpu_time_to_start_us = 0 \<rparr>) = [0, 1, 2]
   \<and> run_saved (run_capture_sequence
       \<lparr> slave_missing_ok = False, config_sync_safety_ms = 1000, capture_init_ok = True,
         wait_ready_ok = True, sync_socket_ok = True,
         sync_pings = [\<lparr> send_time = 100000, recv_time = 104000,
                         rx_datagram = Some ''112000'' \<rparr>],
         start_ok = True, frame_results = (\<lambda>i. FbNull), restore_init_ok = True \<rparr>
       \<lparr> req_session = ''s'', req_query = ''frame_count=3'',
         req_frame_count = 3, req_fs = FRAMESIZE_VGA, req_fmt = PIXFORMAT_JPEG,
         req_cpu_time_to_start_us = 0 \<rparr>) = []"
  by (simp add: run_capture_sequence_def capture_fail_def Let_def record_loop_upt
        udp_sync_metrics_def c_parse_defs upt_conv_Cons
        split: prod.splits)

text \<open>
  C7, amended: in the record phase a failed pull (or a file that does not open) is
  skipped and the remaining frames are still attempted: when the sequence returns
  ESP_OK every index below the frame count was pulled and exactly the written ones were
  saved. The sequence never reports failure for the record phase, also when zero frames
  succeed: when it fails, no frame was pulled and the diagnostic is one of the four that
  precede the record phase.
\<close>

theorem record_phase_never_fails:
  fixes env :: capture_env and req :: capture_request_t
  defines "r \<equiv> run_capture_sequence env req"
  defines "n \<equiv> nat (req_frame_count req)"
  shows "(run_result r = ESP_OK \<longrightarrow>
            run_pulled r = [0..<n]
            \<and> run_saved r = filter (\<lambda>i. frame_results env i = Written) [0..<n])
       \<and> (run_result r \<noteq> ESP_OK \<longrightarrow>
            run_pulled r = [] \<and> run_err_msg r \<in> set pre_record_messages)"
  unfolding r_def n_def
  by (simp add: run_capture_sequence_def capture_fail_def Let_def record_loop_upt
        pre_record_messages_def split: prod.splits)

text \<open>Three frames requested, the second pull fails: frames 0 and 2 are saved.\<close>

theorem record_phase_never_fails_witness:
  "run_result (run_capture_sequence
       \<lparr> slave_missing_ok = True, config_sync_safety_ms = 1000, capture_init_ok = True,
         wait_ready_ok = False, sync_socket_ok = True, sync_pings = [], start_ok = True,
         frame_results = (\<lambda>i. if i = 1 then FbNull else Written),
         restore_init_ok = True \<rparr>
       \<lparr> req_session = ''s'', req_query = ''frame_count=3'',
         req_frame_count = 3, req_fs = FRAMESIZE_VGA, req_fmt = PIXFORMAT_JPEG,
         req_cpu_time_to_start_us = 0 \<rparr>) = ESP_OK
   \<and> run_saved (run_capture_sequence
       \<lparr> slave_missing_ok = True, config_sync_safety_ms = 1000, capture_init_ok = True,
         wait_ready_ok = False, sync_socket_ok = True, sync_pings = [], start_ok = True,
         frame_results = (\<lambda>i. if i = 1 then FbNull else Written),
         restore_init_ok = True \<rparr>
       \<lparr> req_session = ''s'', req_query = ''frame_count=3'',
         req_frame_count = 3, req_fs = FRAMESIZE_VGA, req_fmt = PIXFORMAT_JPEG,
         req_cpu_time_to_start_us = 0 \<rparr>) = [0, 2]"
proof -
  let ?env = "\<lparr> slave_missing_ok = True, config_sync_safety_ms = 1000, capture_init_ok = True,
         wait_ready_ok = False, sync_socket_ok = True, sync_pings = [], start_ok = True,
         frame_results = (\<lambda>i. if i = 1 then FbNull else Written),
         restore_init_ok = True \<rparr>"
  let ?req = "\<lparr> req_session = ''s'', req_query = ''frame_count=3'',
         req_frame_count = 3, req_fs = FRAMESIZE_VGA, req_fmt = PIXFORMAT_JPEG,
         req_cpu_time_to_start_us = 0 \<rparr>"
  have ok: "run_result (run_capture_sequence ?env ?req) = ESP_OK"
    by (simp add: run_capture_sequence_def capture_fail_def Let_def split: prod.splits)
  from record_phase_never_fails [of ?env ?req] ok
  have "run_saved (run_capture_sequence ?env ?req)
          = filter (\<lambda>i. frame_results ?env i = Written) [0..<nat (req_frame_count ?req)]"
    by blast
  also have "\<dots> = [0, 2]"
    by (simp add: upt_conv_Cons)
  finally show ?thesis using ok by blast
qed

section \<open>Capture queue and handler: results\<close>






section \<open>Frame count: results\<close>

lemma run_result_frame_count:
  "run_result (run_capture_sequence env (req \<lparr> req_frame_count := n \<rparr>))
     = run_result (run_capture_sequence env req)
   \<and> run_err_msg (run_capture_sequence env (req \<lparr> req_frame_count := n \<rparr>))
     = run_err_msg (run_capture_sequence env req)"
  by (simp add: run_capture_sequence_def capture_fail_def Let_def split: prod.splits)

lemma capture_request_of_frame_count:
  "capture_request_of q (kv(''frame_count'' := v))
     = (capture_request_of q kv) \<lparr> req_frame_count := capture_frame_count v \<rparr>"
  by (simp add: capture_request_of_def Let_def)

lemma capture_frame_count_bad:
  assumes "v = None \<or> (\<exists>s. v = Some s \<and> (strto_decimal s = None \<or> c_atoi s \<le> 0))"
  shows "capture_frame_count v = 1"
  using assms by (auto simp: capture_frame_count_def c_atoi_def Let_def)

lemma capture_frame_count_one: "capture_frame_count (Some ''1'') = 1"
  by (simp add: capture_frame_count_def c_parse_defs Let_def)

lemma capture_frame_count_pos: "1 \<le> capture_frame_count v"
  by (simp add: capture_frame_count_def Let_def)

lemma master_exit_frame_count:
  "fst (capture_handler (env \<lparr> key_value := (key_value env)(''frame_count'' := v) \<rparr>))
     = fst (capture_handler (env \<lparr> key_value := (key_value env)(''frame_count'' := w) \<rparr>))"
  by (simp add: capture_handler_def Let_def capture_request_of_frame_count await_capture_def
        run_result_frame_count split: option.splits bool.splits)

lemma master_request_frame_count:
  "snd (capture_handler (env \<lparr> key_value := (key_value env)(''frame_count'' := v) \<rparr>)) = Some cap
     \<Longrightarrow> req_frame_count cap = capture_frame_count v"
  by (auto simp: capture_handler_def Let_def capture_request_of_frame_count
        split: option.splits if_splits)

lemma prepare_frame_count:
  "0 < n \<Longrightarrow> 0 < m \<Longrightarrow>
     fst (prepare_slave_capture env slot q sess n fs fmt)
       = fst (prepare_slave_capture env slot q sess m fs fmt)
     \<and> fst (prepare_slave_capture env slot q sess n fs fmt) \<noteq> ESP_ERR_INVALID_ARG"
  by (simp add: prepare_slave_capture_def Let_def)

lemma slave_exit_frame_count:
  "fst (slave_capture_handler (senv \<lparr> sh_key_value := (sh_key_value senv)(''frame_count'' := v) \<rparr>))
     = fst (slave_capture_handler (senv \<lparr> sh_key_value := (sh_key_value senv)(''frame_count'' := w) \<rparr>))"
proof -
  have p: "0 < capture_frame_count v" "0 < capture_frame_count w"
    using capture_frame_count_pos [of v] capture_frame_count_pos [of w] by simp_all
  have e: "fst (prepare_slave_capture env slot q sess (capture_frame_count v) fs fmt)
             = fst (prepare_slave_capture env slot q sess (capture_frame_count w) fs fmt)"
    for env slot q sess fs fmt
    using prepare_frame_count [OF p] by blast
  show ?thesis
    by (simp add: slave_capture_handler_def Let_def e split: option.splits)
qed

lemma slave_request_frame_count:
  "snd (slave_capture_handler (senv \<lparr> sh_key_value := (sh_key_value senv)(''frame_count'' := v) \<rparr>))
     = Some (fc, err, slot)
   \<Longrightarrow> fc = capture_frame_count v \<and> err \<noteq> ESP_ERR_INVALID_ARG"
proof -
  have p: "0 < capture_frame_count v"
    using capture_frame_count_pos [of v] by simp
  have e: "fst (prepare_slave_capture env slot q sess (capture_frame_count v) fs fmt)
             \<noteq> ESP_ERR_INVALID_ARG"
    for env slot q sess fs fmt
    using prepare_frame_count [OF p p] by blast
  assume "snd (slave_capture_handler (senv \<lparr> sh_key_value := (sh_key_value senv)(''frame_count'' := v) \<rparr>))
     = Some (fc, err, slot)"
  then show ?thesis
    using e
    by (auto simp: slave_capture_handler_def Let_def split: option.splits if_splits)
qed

text \<open>
  C9: when the \<open>frame_count\<close> parameter is absent, has no number to convert or converts
  to a value that is not positive, both capture handlers use a frame count of 1: the
  request the master accepts and the call of prepare_slave_capture on the slave carry
  1. The parameter never causes a rejection: each handler leaves by the same exit as
  with \<open>frame_count=1\<close>, and prepare_slave_capture does not return
  ESP_ERR_INVALID_ARG.
\<close>

theorem frame_count_default:
  fixes env :: handler_env and senv :: slave_handler_env and v :: "string option"
  assumes bad: "v = None \<or> (\<exists>s. v = Some s \<and> (strto_decimal s = None \<or> c_atoi s \<le> 0))"
  shows "capture_frame_count v = 1
       \<and> fst (capture_handler (env \<lparr> key_value := (key_value env)(''frame_count'' := v) \<rparr>))
           = fst (capture_handler
                    (env \<lparr> key_value := (key_value env)(''frame_count'' := Some ''1'') \<rparr>))
       \<and> (\<forall>cap. snd (capture_handler
                         (env \<lparr> key_value := (key_value env)(''frame_count'' := v) \<rparr>))
                  = Some cap \<longrightarrow> req_frame_count cap = 1)
       \<and> fst (slave_capture_handler
                (senv \<lparr> sh_key_value := (sh_key_value senv)(''frame_count'' := v) \<rparr>))
           = fst (slave_capture_handler
                    (senv \<lparr> sh_key_value := (sh_key_value senv)(''frame_count'' := Some ''1'') \<rparr>))
       \<and> (\<forall>fc err slot.
             snd (slave_capture_handler
                    (senv \<lparr> sh_key_value := (sh_key_value senv)(''frame_count'' := v) \<rparr>))
               = Some (fc, err, slot) \<longrightarrow> fc = 1 \<and> err \<noteq> ESP_ERR_INVALID_ARG)"
proof -
  have one: "capture_frame_count v = 1"
    using bad by (rule capture_frame_count_bad)
  have m: "\<forall>cap. snd (capture_handler
                         (env \<lparr> key_value := (key_value env)(''frame_count'' := v) \<rparr>))
                  = Some cap \<longrightarrow> req_frame_count cap = 1"
    using master_request_frame_count [of env v] one by simp
  have s: "\<forall>fc err slot.
             snd (slave_capture_handler
                    (senv \<lparr> sh_key_value := (sh_key_value senv)(''frame_count'' := v) \<rparr>))
               = Some (fc, err, slot) \<longrightarrow> fc = 1 \<and> err \<noteq> ESP_ERR_INVALID_ARG"
    using slave_request_frame_count [of senv v] one by simp
  show ?thesis
    using one m s master_exit_frame_count [of env v "Some ''1''"]
      slave_exit_frame_count [of senv v "Some ''1''"]
    by blast
qed

text \<open>\<open>frame_count=abc\<close> on the slave: the prepare is accepted with a frame count of 1.\<close>

theorem frame_count_default_witness:
  "strto_decimal ''abc'' = None
   \<and> capture_frame_count (Some ''abc'') = 1
   \<and> snd (slave_capture_handler
        \<lparr> sh_query = ''frame_count=abc'', sh_body = Some [],
          sh_key_value = (\<lambda>k. None)(''frame_count'' := Some ''abc''),
          sh_prepare = \<lparr> p_mutex_created = True, p_take_check_ok = True, p_init_ok = True,
                         p_take_commit_ok = True \<rparr>,
          sh_slot = \<lparr> s_capture_ready = False, s_capture_in_progress = False,
                      s_capture_req = \<lparr> sreq_session = [], sreq_query = [],
                        sreq_frame_count = 0, sreq_fs = FRAMESIZE_SVGA,
                        sreq_fmt = PIXFORMAT_JPEG, sreq_need_reinit = False \<rparr> \<rparr> \<rparr>)
     = Some (1, ESP_OK,
         \<lparr> s_capture_ready = True, s_capture_in_progress = False,
           s_capture_req = \<lparr> sreq_session = ''session'', sreq_query = ''frame_count=abc'',
             sreq_frame_count = 1, sreq_fs = FRAMESIZE_SVGA,
             sreq_fmt = PIXFORMAT_JPEG, sreq_need_reinit = False \<rparr> \<rparr>)"
proof -
  have h: "strto_decimal ''abc'' = None"
    by (simp add: c_parse_defs)
  then have bad: "Some ''abc'' = None
      \<or> (\<exists>s. Some ''abc'' = Some s \<and> (strto_decimal s = None \<or> c_atoi s \<le> 0))"
    by blast
  let ?senv = "\<lparr> sh_query = ''frame_count=abc'', sh_body = Some [],
          sh_key_value = (\<lambda>k. None),
          sh_prepare = \<lparr> p_mutex_created = True, p_take_check_ok = True, p_init_ok = True,
                         p_take_commit_ok = True \<rparr>,
          sh_slot = \<lparr> s_capture_ready = False, s_capture_in_progress = False,
                      s_capture_req = \<lparr> sreq_session = [], sreq_query = [],
                        sreq_frame_count = 0, sreq_fs = FRAMESIZE_SVGA,
                        sreq_fmt = PIXFORMAT_JPEG, sreq_need_reinit = False \<rparr> \<rparr> \<rparr>"
  have c: "capture_frame_count (Some ''abc'') = 1"
    using frame_count_default [OF bad] by blast
  have "snd (slave_capture_handler
               (?senv \<lparr> sh_key_value := (sh_key_value ?senv)(''frame_count'' := Some ''abc'') \<rparr>))
     = Some (1, ESP_OK,
         \<lparr> s_capture_ready = True, s_capture_in_progress = False,
           s_capture_req = \<lparr> sreq_session = ''session'', sreq_query = ''frame_count=abc'',
             sreq_frame_count = 1, sreq_fs = FRAMESIZE_SVGA,
             sreq_fmt = PIXFORMAT_JPEG, sreq_need_reinit = False \<rparr> \<rparr>)"
    by (simp add: slave_capture_handler_def prepare_slave_capture_def c Let_def
          prepare_reconfig_def apply_sensor_settings_from_query_str_def
          SLAVE_DEFAULT_FRAME_SIZE_def DEFAULT_PIXEL_FORMAT_def)
  with h c show ?thesis by simp
qed


section \<open>Waiting for the capture: results\<close>



text \<open>With a finite timeout the same wait can end in the timeout exit.\<close>

lemma timeout_exit_with_finite_wait:
  "await_capture (Ticks n) None run = Some Exit_timeout"
  by (simp add: await_capture_def)



end
